theory Spec2Isabelle
  imports Complex_Main
begin

section \<open>The bid evaluation sheet of evaluation90.py\<close>

text \<open>
  The script keeps two editable tables of bidders (one per tab), and on every run it
  recomputes two derived columns of each table, the price score and the total, and then
  names the bidder with the highest total. Tab 1 uses the linear deduction formula
  (\<open>calc_standard\<close>), tab 2 the minimum bid ratio formula (\<open>calc_min_ratio\<close>).

  Numbers: the sidebar maxima are Python ints (\<open>number_input\<close> with int bounds), every
  table cell and the target price are floats. Floats are modelled as \<open>real\<close>, so
  rounding is outside this development; \<open>0.8\<close> is the real \<open>8/10\<close>. Blank cells,
  which the data frame holds as NaN, have a part of their own. A division whose
  divisor is zero is an error value of the model.
\<close>

subsection \<open>Configuration and table rows\<close>

record config =
  max_s1 :: int
  max_s2 :: int
  max_s3 :: int
  max_s4 :: int
  max_s5 :: int
  target_price :: real

definition full_score_price :: "config \<Rightarrow> real" where
  "full_score_price cfg = target_price cfg * 0.8"

text \<open>
  One row of the data frame. The columns are, in the order of \<open>get_initial_data\<close>:
  company name, (1) achievements, (2) technical proposal, (3) regional contribution,
  bid price, (4) price score, (5) reduction proposal, total.
\<close>

record row =
  c_name :: string
  c_s1 :: real
  c_s2 :: real
  c_s3 :: real
  c_price :: real
  c_s4 :: real
  c_s5 :: real
  c_total :: real

text \<open>
  The sidebar defaults and the three rows a session starts with. The company names of
  the source are the letters A, B, C followed by the character for "company"; they are
  written here in ASCII.
\<close>

definition default_config :: config where
  "default_config =
     \<lparr>max_s1 = 10, max_s2 = 90, max_s3 = 10, max_s4 = 90, max_s5 = 25, target_price = 420\<rparr>"

definition get_initial_data :: "config \<Rightarrow> row list" where
  "get_initial_data cfg =
     [\<lparr>c_name = ''A-sha'', c_s1 = real_of_int (max_s1 cfg),
       c_s2 = real_of_int (max_s2 cfg) * 0.94, c_s3 = real_of_int (max_s3 cfg),
       c_price = 420, c_s4 = 0, c_s5 = real_of_int (max_s5 cfg), c_total = 0\<rparr>,
      \<lparr>c_name = ''B-sha'', c_s1 = real_of_int (max_s1 cfg) * 0.8,
       c_s2 = real_of_int (max_s2 cfg) * 0.77, c_s3 = real_of_int (max_s3 cfg) * 0.8,
       c_price = 380, c_s4 = 0, c_s5 = real_of_int (max_s5 cfg), c_total = 0\<rparr>,
      \<lparr>c_name = ''C-sha'', c_s1 = real_of_int (max_s1 cfg) * 0.6,
       c_s2 = real_of_int (max_s2 cfg) * 0.61, c_s3 = real_of_int (max_s3 cfg) * 0.6,
       c_price = 340, c_s4 = 0, c_s5 = real_of_int (max_s5 cfg), c_total = 0\<rparr>]"

subsection \<open>Errors and division\<close>

datatype error = ZeroDivisionError | ValueError

definition py_div :: "real \<Rightarrow> real \<Rightarrow> error + real" where
  "py_div a b = (if b = 0 then Inl ZeroDivisionError else Inr (a / b))"

subsection \<open>Tab 1: linear deduction\<close>

text \<open>
  \<open>calc_standard\<close> returns the pair (price score, total) of one row. The three branches
  are tested in the order of the source: at or below the full score price, at or above
  the target price, in between.
\<close>

definition calc_standard :: "config \<Rightarrow> row \<Rightarrow> error + (real \<times> real)" where
  "calc_standard cfg row =
     (let price = c_price row in
      case (if price \<le> full_score_price cfg then Inr (real_of_int (max_s4 cfg))
            else if price \<ge> target_price cfg then Inr 0
            else (let range_width = target_price cfg - full_score_price cfg;
                      price_diff = target_price cfg - price
                  in case py_div price_diff range_width of
                       Inl e \<Rightarrow> Inl e
                     | Inr q \<Rightarrow> Inr (q * real_of_int (max_s4 cfg))))
      of Inl e \<Rightarrow> Inl e
       | Inr s4 \<Rightarrow> Inr (s4, c_s1 row + c_s2 row + c_s3 row + s4 + c_s5 row))"

text \<open>The branch of \<open>calc_standard\<close> a row takes; only \<open>Interpolation\<close> divides.\<close>

datatype branch = FullScore | ZeroScore | Interpolation

definition standard_branch :: "config \<Rightarrow> row \<Rightarrow> branch" where
  "standard_branch cfg row =
     (let price = c_price row in
      if price \<le> full_score_price cfg then FullScore
      else if price \<ge> target_price cfg then ZeroScore
      else Interpolation)"

text \<open>
  \<open>df[[price score, total]] = df.apply(f, axis=1)\<close>: \<open>f\<close> runs on the rows from first to
  last, the first error ends the pass, and otherwise both columns of every row are
  overwritten.
\<close>

fun apply_assign :: "(row \<Rightarrow> error + (real \<times> real)) \<Rightarrow> row list \<Rightarrow> error + row list" where
  "apply_assign f [] = Inr []"
| "apply_assign f (r # rs) =
     (case f r of
        Inl e \<Rightarrow> Inl e
      | Inr (s4, tot) \<Rightarrow>
          (case apply_assign f rs of
             Inl e \<Rightarrow> Inl e
           | Inr rs' \<Rightarrow> Inr (r\<lparr>c_s4 := s4, c_total := tot\<rparr> # rs')))"

definition recompute_tab1 :: "config \<Rightarrow> row list \<Rightarrow> error + row list" where
  "recompute_tab1 cfg df =
     (if df \<noteq> [] then apply_assign (calc_standard cfg) df else Inr df)"

subsection \<open>Tab 2: minimum bid ratio\<close>

text \<open>
  \<open>Series.min\<close>. It is only called on a series the source has just tested to be
  non-empty, so the value given for \<open>[]\<close> is never used.
\<close>

fun series_min :: "real list \<Rightarrow> real" where
  "series_min [] = 0"
| "series_min [x] = x"
| "series_min (x # y # ys) = min x (series_min (y # ys))"

definition valid_prices :: "row list \<Rightarrow> real list" where
  "valid_prices df = map c_price (filter (\<lambda>r. c_price r > 0) df)"

definition min_price :: "row list \<Rightarrow> real" where
  "min_price df = (if valid_prices df \<noteq> [] then series_min (valid_prices df) else 0)"

definition calc_min_ratio :: "config \<Rightarrow> real \<Rightarrow> row \<Rightarrow> error + (real \<times> real)" where
  "calc_min_ratio cfg min_p row =
     (let price = c_price row in
      case (if price > 0 \<and> min_p > 0
            then (case py_div min_p price of
                    Inl e \<Rightarrow> Inl e
                  | Inr q \<Rightarrow> Inr (q * real_of_int (max_s4 cfg)))
            else Inr 0)
      of Inl e \<Rightarrow> Inl e
       | Inr s4 \<Rightarrow> Inr (s4, c_s1 row + c_s2 row + c_s3 row + s4 + c_s5 row))"

definition recompute_tab2 :: "config \<Rightarrow> row list \<Rightarrow> error + row list" where
  "recompute_tab2 cfg df =
     (if df \<noteq> [] then apply_assign (calc_min_ratio cfg (min_price df)) df else Inr df)"

subsection \<open>The two models behind one entry point\<close>

datatype model = Standard | MinRatio

definition recompute :: "row list \<Rightarrow> config \<Rightarrow> model \<Rightarrow> error + row list" where
  "recompute df cfg m =
     (case m of Standard \<Rightarrow> recompute_tab1 cfg df | MinRatio \<Rightarrow> recompute_tab2 cfg df)"


subsection \<open>Rows with blank cells\<close>

text \<open>
  The editor is dynamic: the user can add a row, and the numeric cells of a new row are
  blank until they are filled in. The data frame holds a blank numeric cell as NaN.
  Every comparison with NaN is false, arithmetic with NaN gives NaN, and a float
  division tests its divisor for zero before anything else. The definitions above are
  the program on rows whose cells are all numbers; the ones below are the linear
  deduction pass and the winner on rows as the editor delivers them.
\<close>

datatype cell = Num real | NaN

fun cell_le :: "cell \<Rightarrow> cell \<Rightarrow> bool" where
  "cell_le (Num x) (Num y) = (x \<le> y)"
| "cell_le _ _ = False"

fun cell_add :: "cell \<Rightarrow> cell \<Rightarrow> cell" where
  "cell_add (Num x) (Num y) = Num (x + y)"
| "cell_add _ _ = NaN"

fun cell_sub :: "cell \<Rightarrow> cell \<Rightarrow> cell" where
  "cell_sub (Num x) (Num y) = Num (x - y)"
| "cell_sub _ _ = NaN"

fun cell_mul :: "cell \<Rightarrow> cell \<Rightarrow> cell" where
  "cell_mul (Num x) (Num y) = Num (x * y)"
| "cell_mul _ _ = NaN"

fun cell_div :: "cell \<Rightarrow> cell \<Rightarrow> error + cell" where
  "cell_div a (Num y) =
     (if y = 0 then Inl ZeroDivisionError
      else Inr (case a of Num x \<Rightarrow> Num (x / y) | NaN \<Rightarrow> NaN))"
| "cell_div a NaN = Inr NaN"

record cell_row =
  e_name :: string
  e_s1 :: cell
  e_s2 :: cell
  e_s3 :: cell
  e_price :: cell
  e_s4 :: cell
  e_s5 :: cell
  e_total :: cell

text \<open>A row of numbers as a row of cells, and the row the editor appends.\<close>

definition cells_of :: "row \<Rightarrow> cell_row" where
  "cells_of r =
     \<lparr>e_name = c_name r, e_s1 = Num (c_s1 r), e_s2 = Num (c_s2 r), e_s3 = Num (c_s3 r),
      e_price = Num (c_price r), e_s4 = Num (c_s4 r), e_s5 = Num (c_s5 r),
      e_total = Num (c_total r)\<rparr>"

definition blank_row :: cell_row where
  "blank_row =
     \<lparr>e_name = [], e_s1 = NaN, e_s2 = NaN, e_s3 = NaN, e_price = NaN, e_s4 = NaN,
      e_s5 = NaN, e_total = NaN\<rparr>"

text \<open>
  \<open>calc_standard\<close> again, test for test, on a row of cells. The target price and the
  full score price come from the sidebar and are numbers.
\<close>

definition calc_standard_cells :: "config \<Rightarrow> cell_row \<Rightarrow> error + (cell \<times> cell)" where
  "calc_standard_cells cfg row =
     (let price = e_price row in
      case (if cell_le price (Num (full_score_price cfg))
            then Inr (Num (real_of_int (max_s4 cfg)))
            else if cell_le (Num (target_price cfg)) price then Inr (Num 0)
            else (let range_width = Num (target_price cfg - full_score_price cfg);
                      price_diff = cell_sub (Num (target_price cfg)) price
                  in case cell_div price_diff range_width of
                       Inl e \<Rightarrow> Inl e
                     | Inr q \<Rightarrow> Inr (cell_mul q (Num (real_of_int (max_s4 cfg))))))
      of Inl e \<Rightarrow> Inl e
       | Inr s4 \<Rightarrow>
           Inr (s4, cell_add (cell_add (cell_add (cell_add (e_s1 row) (e_s2 row)) (e_s3 row)) s4)
                      (e_s5 row)))"

definition standard_branch_cells :: "config \<Rightarrow> cell_row \<Rightarrow> branch" where
  "standard_branch_cells cfg row =
     (let price = e_price row in
      if cell_le price (Num (full_score_price cfg)) then FullScore
      else if cell_le (Num (target_price cfg)) price then ZeroScore
      else Interpolation)"

fun apply_assign_cells ::
  "(cell_row \<Rightarrow> error + (cell \<times> cell)) \<Rightarrow> cell_row list \<Rightarrow> error + cell_row list" where
  "apply_assign_cells f [] = Inr []"
| "apply_assign_cells f (r # rs) =
     (case f r of
        Inl e \<Rightarrow> Inl e
      | Inr (s4, tot) \<Rightarrow>
          (case apply_assign_cells f rs of
             Inl e \<Rightarrow> Inl e
           | Inr rs' \<Rightarrow> Inr (r\<lparr>e_s4 := s4, e_total := tot\<rparr> # rs')))"

definition recompute_tab1_cells :: "config \<Rightarrow> cell_row list \<Rightarrow> error + cell_row list" where
  "recompute_tab1_cells cfg df =
     (if df \<noteq> [] then apply_assign_cells (calc_standard_cells cfg) df else Inr df)"

subsection \<open>Winner\<close>

text \<open>
  \<open>Series.idxmax\<close> skips NaN and gives the label of the first occurrence of the maximum
  of the numbers; with the default index the label is the position. When the series
  holds no number, the lookup of the winner's name fails. \<open>argmax_skipna\<close> is the
  scan: best position and value so far (none yet before the first number), current
  position, rest. \<open>Series.max\<close> skips NaN too and is NaN when there is no number.
\<close>

fun argmax_skipna :: "(nat \<times> real) option \<Rightarrow> nat \<Rightarrow> cell list \<Rightarrow> (nat \<times> real) option" where
  "argmax_skipna best i [] = best"
| "argmax_skipna best i (NaN # xs) = argmax_skipna best (Suc i) xs"
| "argmax_skipna best i (Num x # xs) =
     (case best of
        None \<Rightarrow> argmax_skipna (Some (i, x)) (Suc i) xs
      | Some (b, bv) \<Rightarrow>
          (if x > bv then argmax_skipna (Some (i, x)) (Suc i) xs
           else argmax_skipna (Some (b, bv)) (Suc i) xs))"

definition idxmax :: "cell list \<Rightarrow> error + nat" where
  "idxmax xs = (case argmax_skipna None 0 xs of None \<Rightarrow> Inl ValueError | Some (k, v) \<Rightarrow> Inr k)"

fun series_max :: "cell list \<Rightarrow> cell" where
  "series_max [] = NaN"
| "series_max (NaN # xs) = series_max xs"
| "series_max (Num x # xs) =
     (case series_max xs of NaN \<Rightarrow> Num x | Num y \<Rightarrow> Num (max x y))"

text \<open>
  The winner shown under a table: nothing (\<open>Inr None\<close>) for an empty table, otherwise
  the name at the \<open>idxmax\<close> of the totals and the maximum of the totals.
\<close>

definition rank :: "cell_row list \<Rightarrow> error + (string \<times> cell) option" where
  "rank df =
     (if df \<noteq> [] then
        (case idxmax (map e_total df) of
           Inl e \<Rightarrow> Inl e
         | Inr i \<Rightarrow> Inr (Some (e_name (df ! i), series_max (map e_total df))))
      else Inr None)"

subsection \<open>The formulas as the specification words them\<close>

text \<open>
  The piecewise reference of the linear deduction model, cases read in the order
  given: full marks at or below the threshold, zero at or above the target, the linear
  interpolation otherwise.
\<close>

definition piecewise_reference :: "real \<Rightarrow> real \<Rightarrow> real \<Rightarrow> real \<Rightarrow> real" where
  "piecewise_reference maxScorePrice targetPrice fullScoreThreshold price =
     (if price \<le> fullScoreThreshold then maxScorePrice
      else if price \<ge> targetPrice then 0
      else (targetPrice - price) / (targetPrice - fullScoreThreshold) * maxScorePrice)"

text \<open>The minimum ratio model: minimum over own price, times the maximum.\<close>

definition min_ratio_reference :: "real \<Rightarrow> real \<Rightarrow> real \<Rightarrow> real" where
  "min_ratio_reference maxScorePrice minPrice bidPrice =
     (if bidPrice > 0 \<and> minPrice > 0 then (minPrice / bidPrice) * maxScorePrice else 0)"

definition price_score_reference :: "config \<Rightarrow> model \<Rightarrow> row list \<Rightarrow> row \<Rightarrow> real" where
  "price_score_reference cfg m df r =
     (case m of
        Standard \<Rightarrow>
          piecewise_reference (real_of_int (max_s4 cfg)) (target_price cfg)
            (target_price cfg * 0.8) (c_price r)
      | MinRatio \<Rightarrow> min_ratio_reference (real_of_int (max_s4 cfg)) (min_price df) (c_price r))"

section \<open>Properties\<close>

subsection \<open>One row under the linear deduction formula\<close>

lemma calc_standard_value:
  "calc_standard cfg row =
     Inr (piecewise_reference (real_of_int (max_s4 cfg)) (target_price cfg)
            (full_score_price cfg) (c_price row),
          c_s1 row + c_s2 row + c_s3 row
            + piecewise_reference (real_of_int (max_s4 cfg)) (target_price cfg)
                (full_score_price cfg) (c_price row)
            + c_s5 row)"
  by (simp add: calc_standard_def piecewise_reference_def py_div_def Let_def)

lemma calc_min_ratio_value:
  "calc_min_ratio cfg mp row =
     Inr (min_ratio_reference (real_of_int (max_s4 cfg)) mp (c_price row),
          c_s1 row + c_s2 row + c_s3 row
            + min_ratio_reference (real_of_int (max_s4 cfg)) mp (c_price row)
            + c_s5 row)"
  by (simp add: calc_min_ratio_def min_ratio_reference_def py_div_def Let_def)

text \<open>
  For a positive target price the threshold lies below the target, the three cases of
  the reference exclude one another, and their order does not matter.
\<close>

lemma piecewise_reference_positive_target:
  assumes "0 < t"
  shows "(p \<le> t * 0.8 \<longrightarrow> piecewise_reference M t (t * 0.8) p = M)
    \<and> (t \<le> p \<longrightarrow> piecewise_reference M t (t * 0.8) p = 0)
    \<and> (t * 0.8 < p \<and> p < t \<longrightarrow>
          piecewise_reference M t (t * 0.8) p = (t - p) / (t - t * 0.8) * M)"
  using assms by (auto simp: piecewise_reference_def)

subsection \<open>A pass over the table\<close>

lemma apply_assign_value:
  assumes "\<And>r. r \<in> set df \<Longrightarrow> f r = Inr (g r, h r)"
  shows "apply_assign f df = Inr (map (\<lambda>r. r\<lparr>c_s4 := g r, c_total := h r\<rparr>) df)"
  using assms by (induction df) simp_all

lemma recompute_value:
  "recompute df cfg m =
     Inr (map (\<lambda>r. r\<lparr>c_s4 := price_score_reference cfg m df r,
                       c_total := c_s1 r + c_s2 r + c_s3 r
                                    + price_score_reference cfg m df r + c_s5 r\<rparr>) df)"
proof (cases m)
  case Standard
  have "apply_assign (calc_standard cfg) df =
          Inr (map (\<lambda>r. r\<lparr>c_s4 := price_score_reference cfg Standard df r,
                            c_total := c_s1 r + c_s2 r + c_s3 r
                                         + price_score_reference cfg Standard df r + c_s5 r\<rparr>) df)"
    by (rule apply_assign_value)
       (simp add: calc_standard_value price_score_reference_def full_score_price_def)
  with Standard show ?thesis
    by (cases df) (simp_all add: recompute_def recompute_tab1_def)
next
  case MinRatio
  have "apply_assign (calc_min_ratio cfg (min_price df)) df =
          Inr (map (\<lambda>r. r\<lparr>c_s4 := price_score_reference cfg MinRatio df r,
                            c_total := c_s1 r + c_s2 r + c_s3 r
                                         + price_score_reference cfg MinRatio df r + c_s5 r\<rparr>) df)"
    by (rule apply_assign_value)
       (simp add: calc_min_ratio_value price_score_reference_def)
  with MinRatio show ?thesis
    by (cases df) (simp_all add: recompute_def recompute_tab2_def)
qed


subsection \<open>The minimum of the valid prices\<close>

lemma series_min_in_set: "xs \<noteq> [] \<Longrightarrow> series_min xs \<in> set xs"
  by (induction xs rule: series_min.induct) (auto simp: min_def)

lemma series_min_le: "x \<in> set xs \<Longrightarrow> series_min xs \<le> x"
  by (induction xs rule: series_min.induct) (auto simp: min_def)

lemma valid_prices_iff:
  "x \<in> set (valid_prices df) \<longleftrightarrow> (\<exists>r \<in> set df. c_price r = x \<and> 0 < x)"
  by (auto simp: valid_prices_def)

lemma valid_prices_nonempty: "r \<in> set df \<Longrightarrow> 0 < c_price r \<Longrightarrow> valid_prices df \<noteq> []"
  by (auto simp: valid_prices_def filter_empty_conv)

lemma min_price_pos: "valid_prices df \<noteq> [] \<Longrightarrow> 0 < min_price df"
  using series_min_in_set [of "valid_prices df"] valid_prices_iff [of "min_price df" df]
  by (auto simp: min_price_def)

lemma min_price_le: "r \<in> set df \<Longrightarrow> 0 < c_price r \<Longrightarrow> min_price df \<le> c_price r"
proof -
  assume r: "r \<in> set df" "0 < c_price r"
  then have mem: "c_price r \<in> set (valid_prices df)"
    by (auto simp: valid_prices_iff)
  then have "valid_prices df \<noteq> []" by auto
  with mem show ?thesis
    by (simp add: min_price_def series_min_le)
qed

lemma min_price_nonneg: "0 \<le> min_price df"
  using min_price_pos [of df] by (cases "valid_prices df = []") (simp_all add: min_price_def)

subsection \<open>Bounds of the two formulas\<close>





subsection \<open>A second pass\<close>




subsection \<open>Changing one bid price\<close>

lemma min_price_mem:
  assumes "valid_prices df \<noteq> []"
  shows "\<exists>j < length df. c_price (df ! j) = min_price df"
proof -
  from assms have "min_price df \<in> set (valid_prices df)"
    by (simp add: min_price_def series_min_in_set)
  then obtain r where "r \<in> set df" "c_price r = min_price df"
    by (auto simp: valid_prices_iff)
  then show ?thesis
    by (auto simp: in_set_conv_nth)
qed

lemma min_ratio_own_price_monotone:
  assumes i: "i < length df" and p: "0 < c_price (df ! i)" and pp: "c_price (df ! i) \<le> p'"
  shows "min_price (df[i := (df ! i)\<lparr>c_price := p'\<rparr>]) / p'
           \<le> min_price df / c_price (df ! i)"
proof -
  let ?p = "c_price (df ! i)"
  let ?df' = "df[i := (df ! i)\<lparr>c_price := p'\<rparr>]"
  from p pp have p'pos: "0 < p'" by simp
  have mem: "df ! i \<in> set df" using i by simp
  have mem': "?df' ! i \<in> set ?df'" using i by (simp add: set_update_memI)
  have own': "c_price (?df' ! i) = p'" using i by simp
  have a_le: "min_price df \<le> ?p" using mem p by (rule min_price_le)
  have b_le: "min_price ?df' \<le> p'"
    using min_price_le [OF mem'] p'pos own' by simp
  have a_pos: "0 < min_price df"
    using mem p by (intro min_price_pos) (auto simp: valid_prices_def filter_empty_conv)
  have "valid_prices df \<noteq> []"
    using mem p by (auto simp: valid_prices_def filter_empty_conv)
  then obtain j where j: "j < length df" "c_price (df ! j) = min_price df"
    using min_price_mem by blast
  have cross: "min_price ?df' * ?p \<le> min_price df * p'"
  proof (cases "j = i")
    case True
    with j have "min_price df = ?p" by simp
    with b_le p show ?thesis by (simp add: mult.commute)
  next
    case False
    from j(1) have "j < length ?df'" by simp
    then have "?df' ! j \<in> set ?df'" by (rule nth_mem)
    moreover from False j have "c_price (?df' ! j) = min_price df" by simp
    ultimately have "min_price ?df' \<le> min_price df"
      using min_price_le [of "?df' ! j" ?df'] a_pos by simp
    then have "min_price ?df' * ?p \<le> min_price df * ?p"
      using p by simp
    also have "\<dots> \<le> min_price df * p'"
      using pp a_pos by simp
    finally show ?thesis .
  qed
  with p p'pos show ?thesis
    by (simp add: field_simps)
qed

subsection \<open>Rows of numbers among rows of cells\<close>

text \<open>
  On a row whose cells are all numbers the definitions on cells agree with the ones on
  numbers, so everything shown of the latter is a fact about the former.
\<close>

lemma calc_standard_cells_of:
  "calc_standard_cells cfg (cells_of r) =
     map_sum id (map_prod Num Num) (calc_standard cfg r)"
  by (simp add: calc_standard_cells_def calc_standard_def cells_of_def py_div_def Let_def)

lemma standard_branch_cells_of:
  "standard_branch_cells cfg (cells_of r) = standard_branch cfg r"
  by (simp add: standard_branch_cells_def standard_branch_def cells_of_def Let_def)

lemma apply_assign_cells_of:
  assumes "\<And>r. r \<in> set df \<Longrightarrow> g (cells_of r) = map_sum id (map_prod Num Num) (f r)"
  shows "apply_assign_cells g (map cells_of df) = map_sum id (map cells_of) (apply_assign f df)"
  using assms
  by (induction df) (auto simp: cells_of_def split: sum.splits prod.splits)

lemma recompute_tab1_cells_of:
  "recompute_tab1_cells cfg (map cells_of df) =
     map_sum id (map cells_of) (recompute_tab1 cfg df)"
  by (simp add: recompute_tab1_cells_def recompute_tab1_def apply_assign_cells_of
        calc_standard_cells_of)

text \<open>
  As long as the bid price of a row is a number, whatever its other cells hold, the
  interpolation branch is reached only strictly between the full score price and the
  target price, where the divisor is positive, and \<open>calc_standard\<close> returns.
\<close>

lemma calc_standard_cells_numeric_price:
  assumes "e_price row = Num p"
  shows "(standard_branch_cells cfg row = Interpolation \<longrightarrow>
            full_score_price cfg < p \<and> p < target_price cfg
            \<and> 0 < target_price cfg - full_score_price cfg)
         \<and> (\<exists>v. calc_standard_cells cfg row = Inr v)"
  using assms
  by (auto simp: standard_branch_cells_def calc_standard_cells_def Let_def)

subsection \<open>First position of the maximum\<close>

lemma argmax_skipna_inv:
  assumes "zs = pre @ xs"
    and "case best of
           None \<Rightarrow> (\<forall>j < length pre. zs ! j = NaN)
         | Some (b, bv) \<Rightarrow> b < length pre \<and> zs ! b = Num bv
             \<and> (\<forall>j < length pre. \<forall>w. zs ! j = Num w \<longrightarrow> w \<le> bv)
             \<and> (\<forall>j < b. \<forall>w. zs ! j = Num w \<longrightarrow> w < bv)"
  shows "case argmax_skipna best (length pre) xs of
           None \<Rightarrow> (\<forall>j < length zs. zs ! j = NaN)
         | Some (k, v) \<Rightarrow> k < length zs \<and> zs ! k = Num v
             \<and> (\<forall>j < length zs. \<forall>w. zs ! j = Num w \<longrightarrow> w \<le> v)
             \<and> (\<forall>j < k. \<forall>w. zs ! j = Num w \<longrightarrow> w < v)"
  using assms
proof (induction xs arbitrary: pre best)
  case Nil
  then show ?case by (auto split: option.splits)
next
  case (Cons x xs)
  have zs: "zs = (pre @ [x]) @ xs" using Cons.prems(1) by simp
  have x: "zs ! length pre = x" using Cons.prems(1) by simp
  have len: "Suc (length pre) = length (pre @ [x])" by simp
  show ?case
  proof (cases x)
    case NaN
    have "case best of
           None \<Rightarrow> (\<forall>j < length (pre @ [x]). zs ! j = NaN)
         | Some (b, bv) \<Rightarrow> b < length (pre @ [x]) \<and> zs ! b = Num bv
             \<and> (\<forall>j < length (pre @ [x]). \<forall>w. zs ! j = Num w \<longrightarrow> w \<le> bv)
             \<and> (\<forall>j < b. \<forall>w. zs ! j = Num w \<longrightarrow> w < bv)"
      using Cons.prems(2) x NaN by (auto simp: less_Suc_eq split: option.splits)
    from Cons.IH [OF zs this] NaN show ?thesis
      by (simp only: argmax_skipna.simps len)
  next
    case (Num v)
    show ?thesis
    proof (cases best)
      case None
      have "case Some (length pre, v) of
           None \<Rightarrow> (\<forall>j < length (pre @ [x]). zs ! j = NaN)
         | Some (b, bv) \<Rightarrow> b < length (pre @ [x]) \<and> zs ! b = Num bv
             \<and> (\<forall>j < length (pre @ [x]). \<forall>w. zs ! j = Num w \<longrightarrow> w \<le> bv)
             \<and> (\<forall>j < b. \<forall>w. zs ! j = Num w \<longrightarrow> w < bv)"
        using Cons.prems(2) x Num None by (auto simp: less_Suc_eq)
      from Cons.IH [OF zs this] Num None show ?thesis
        by (simp only: argmax_skipna.simps len option.case)
    next
      case (Some bb)
      obtain b bv where bb: "bb = (b, bv)" by (cases bb)
      show ?thesis
      proof (cases "v > bv")
        case True
        have "case Some (length pre, v) of
           None \<Rightarrow> (\<forall>j < length (pre @ [x]). zs ! j = NaN)
         | Some (b, bv) \<Rightarrow> b < length (pre @ [x]) \<and> zs ! b = Num bv
             \<and> (\<forall>j < length (pre @ [x]). \<forall>w. zs ! j = Num w \<longrightarrow> w \<le> bv)
             \<and> (\<forall>j < b. \<forall>w. zs ! j = Num w \<longrightarrow> w < bv)"
          using Cons.prems(2) x Num Some bb True by (fastforce simp: less_Suc_eq)
        from Cons.IH [OF zs this] Num Some bb True show ?thesis
          by (simp only: argmax_skipna.simps len option.case prod.case if_True)
      next
        case False
        have "case Some (b, bv) of
           None \<Rightarrow> (\<forall>j < length (pre @ [x]). zs ! j = NaN)
         | Some (b, bv) \<Rightarrow> b < length (pre @ [x]) \<and> zs ! b = Num bv
             \<and> (\<forall>j < length (pre @ [x]). \<forall>w. zs ! j = Num w \<longrightarrow> w \<le> bv)
             \<and> (\<forall>j < b. \<forall>w. zs ! j = Num w \<longrightarrow> w < bv)"
          using Cons.prems(2) x Num Some bb False by (auto simp: less_Suc_eq)
        from Cons.IH [OF zs this] Num Some bb False show ?thesis
          by (simp only: argmax_skipna.simps len option.case prod.case if_False)
      qed
    qed
  qed
qed

lemma idxmax_first_max:
  assumes "j0 < length zs" and "zs ! j0 \<noteq> NaN"
  shows "\<exists>k v. k < length zs \<and> idxmax zs = Inr k \<and> zs ! k = Num v
           \<and> (\<forall>j < length zs. \<forall>w. zs ! j = Num w \<longrightarrow> w \<le> v)
           \<and> (\<forall>j < k. \<forall>w. zs ! j = Num w \<longrightarrow> w < v)"
proof -
  have inv: "case argmax_skipna None (length ([] :: cell list)) zs of
           None \<Rightarrow> (\<forall>j < length zs. zs ! j = NaN)
         | Some (k, v) \<Rightarrow> k < length zs \<and> zs ! k = Num v
             \<and> (\<forall>j < length zs. \<forall>w. zs ! j = Num w \<longrightarrow> w \<le> v)
             \<and> (\<forall>j < k. \<forall>w. zs ! j = Num w \<longrightarrow> w < v)"
    by (rule argmax_skipna_inv) simp_all
  show ?thesis
  proof (cases "argmax_skipna None 0 zs")
    case None
    with inv assms show ?thesis by simp
  next
    case (Some kv)
    obtain k v where "kv = (k, v)" by (cases kv)
    with Some inv show ?thesis by (auto simp: idxmax_def)
  qed
qed

lemma idxmax_all_blank:
  assumes "\<forall>c \<in> set zs. c = NaN"
  shows "idxmax zs = Inl ValueError"
proof -
  have "argmax_skipna None i zs = None" for i
    using assms by (induction zs arbitrary: i) simp_all
  then show ?thesis by (simp add: idxmax_def)
qed

lemma series_max_NaN_iff: "series_max zs = NaN \<longleftrightarrow> (\<forall>c \<in> set zs. c = NaN)"
  by (induction zs rule: series_max.induct) (auto split: cell.splits)

lemma series_max_Num:
  "series_max zs = Num v \<Longrightarrow> Num v \<in> set zs \<and> (\<forall>w. Num w \<in> set zs \<longrightarrow> w \<le> v)"
  by (induction zs arbitrary: v rule: series_max.induct)
     (auto simp: max_def series_max_NaN_iff split: cell.splits if_splits)

lemma series_max_at:
  assumes "k < length zs" and "zs ! k = Num v"
    and "\<forall>j < length zs. \<forall>w. zs ! j = Num w \<longrightarrow> w \<le> v"
  shows "series_max zs = Num v"
proof -
  from assms(1,2) have mem: "Num v \<in> set zs" by (metis nth_mem)
  then have "series_max zs \<noteq> NaN" by (auto simp: series_max_NaN_iff)
  then obtain u where u: "series_max zs = Num u" by (cases "series_max zs") auto
  then have "Num u \<in> set zs" and "v \<le> u"
    using series_max_Num [OF u] mem by auto
  moreover from \<open>Num u \<in> set zs\<close> assms(3) have "u \<le> v"
    by (auto simp: in_set_conv_nth)
  ultimately show ?thesis using u by simp
qed

text \<open>
  As soon as one total of the table is a number, \<open>rank\<close> returns the name and the total
  of a row whose total is the largest of the numbers, and every number before that row
  is strictly smaller: among tied rows the earliest wins.
\<close>

lemma rank_first_maximum:
  assumes "j0 < length df" and "e_total (df ! j0) \<noteq> NaN"
  shows "\<exists>i v. i < length df \<and> e_total (df ! i) = Num v
           \<and> rank df = Inr (Some (e_name (df ! i), Num v))
           \<and> (\<forall>j < length df. \<forall>w. e_total (df ! j) = Num w \<longrightarrow> w \<le> v)
           \<and> (\<forall>j < i. \<forall>w. e_total (df ! j) = Num w \<longrightarrow> w < v)"
proof -
  let ?zs = "map e_total df"
  from assms have "j0 < length ?zs" and "?zs ! j0 \<noteq> NaN" by simp_all
  then obtain k v where k: "k < length ?zs" "idxmax ?zs = Inr k" "?zs ! k = Num v"
    and ge: "\<forall>j < length ?zs. \<forall>w. ?zs ! j = Num w \<longrightarrow> w \<le> v"
    and first: "\<forall>j < k. \<forall>w. ?zs ! j = Num w \<longrightarrow> w < v"
    using idxmax_first_max by blast
  have "series_max ?zs = Num v" using k(1,3) ge by (rule series_max_at)
  moreover from assms(1) have "df \<noteq> []" by auto
  ultimately have "rank df = Inr (Some (e_name (df ! k), Num v))"
    using k(2) by (simp add: rank_def)
  moreover from k(1,3) have "e_total (df ! k) = Num v" by simp
  moreover from ge have "\<forall>j < length df. \<forall>w. e_total (df ! j) = Num w \<longrightarrow> w \<le> v"
    by simp
  moreover from first k(1) have "\<forall>j < k. \<forall>w. e_total (df ! j) = Num w \<longrightarrow> w < v"
    by simp
  ultimately show ?thesis using k(1) by auto
qed

lemma rank_all_blank:
  assumes "df \<noteq> []" and "\<forall>r \<in> set df. e_total r = NaN"
  shows "rank df = Inl ValueError"
proof -
  from assms(2) have "\<forall>c \<in> set (map e_total df). c = NaN" by simp
  then have "idxmax (map e_total df) = Inl ValueError" by (rule idxmax_all_blank)
  with assms(1) show ?thesis by (simp add: rank_def)
qed

text \<open>The tie of three bidders with totals 78.4, 78.4 and 75: the first one wins.\<close>

lemma rank_tie_scenario:
  "rank (map cells_of
     (map (\<lambda>r. r\<lparr>c_total := 784 / 10\<rparr>) (take 2 (get_initial_data default_config))
      @ map (\<lambda>r. r\<lparr>c_total := 75\<rparr>) (drop 2 (get_initial_data default_config))))
       = Inr (Some (''A-sha'', Num (784 / 10)))"
  by (simp add: rank_def idxmax_def default_config_def get_initial_data_def cells_of_def)

section \<open>The claims\<close>

subsection \<open>Linear deduction, row by row\<close>

text \<open>
  C10. With a target price that is not negative, a row whose bid price is 0 takes the
  full score branch, which is tested first, and its price score is the maximum
  \<open>max_s4\<close>.
\<close>

theorem zero_bid_gets_full_score:
  assumes "0 \<le> target_price cfg" and "c_price row = 0"
  shows "standard_branch cfg row = FullScore
    \<and> calc_standard cfg row =
        Inr (real_of_int (max_s4 cfg),
             c_s1 row + c_s2 row + c_s3 row + real_of_int (max_s4 cfg) + c_s5 row)"
  using assms
  by (simp add: standard_branch_def calc_standard_def full_score_price_def)

theorem zero_bid_gets_full_score_witness:
  "calc_standard default_config ((get_initial_data default_config ! 0)\<lparr>c_price := 0\<rparr>)
     = Inr (90, 1098 / 5)"
  using zero_bid_gets_full_score
    [of default_config "(get_initial_data default_config ! 0)\<lparr>c_price := 0\<rparr>"]
  by (simp add: default_config_def get_initial_data_def)

text \<open>
  C1, as the code has it. \<open>calc_standard\<close> has no guard of its own for a target price
  that is not positive: the two ordinary tests already cover every bid price from 0 up.
  The interpolation branch is not reached, so nothing is divided, and the price score
  is 0, except for a bid price of 0 against a target price of 0: that row is at the full
  score price, the first test succeeds, and its price score is \<open>max_s4\<close>.
\<close>

theorem nonpositive_target_never_interpolates:
  assumes "target_price cfg \<le> 0" and "0 \<le> c_price row"
  shows "standard_branch cfg row \<noteq> Interpolation
    \<and> (\<exists>tot. calc_standard cfg row =
          Inr (if target_price cfg = 0 \<and> c_price row = 0 then real_of_int (max_s4 cfg) else 0,
               tot))"
proof
  from assms show "standard_branch cfg row \<noteq> Interpolation"
    by (auto simp: standard_branch_def full_score_price_def Let_def)
  from assms have
    "piecewise_reference (real_of_int (max_s4 cfg)) (target_price cfg)
       (full_score_price cfg) (c_price row) =
     (if target_price cfg = 0 \<and> c_price row = 0 then real_of_int (max_s4 cfg) else 0)"
    by (auto simp: piecewise_reference_def full_score_price_def)
  then show "\<exists>tot. calc_standard cfg row =
      Inr (if target_price cfg = 0 \<and> c_price row = 0 then real_of_int (max_s4 cfg) else 0, tot)"
    by (simp add: calc_standard_value)
qed

theorem nonpositive_target_never_interpolates_witness:
  "standard_branch (default_config\<lparr>target_price := - 10\<rparr>)
     (get_initial_data default_config ! 2) = ZeroScore
   \<and> calc_standard (default_config\<lparr>target_price := - 10\<rparr>)
       (get_initial_data default_config ! 2) = Inr (0, 919 / 10)"
  using nonpositive_target_never_interpolates
    [of "default_config\<lparr>target_price := - 10\<rparr>" "get_initial_data default_config ! 2"]
  by (simp add: default_config_def get_initial_data_def standard_branch_def
        full_score_price_def calc_standard_def)

text \<open>
  C1 as stated fails: with the default maxima, a target price of 0 and a bid price of 0,
  the price score is 90, not 0.
\<close>

theorem zero_target_zero_bid_scores_full:
  "target_price (default_config\<lparr>target_price := 0\<rparr>) \<le> 0
   \<and> 0 \<le> c_price ((get_initial_data default_config ! 0)\<lparr>c_price := 0\<rparr>)
   \<and> map_sum id fst
        (calc_standard (default_config\<lparr>target_price := 0\<rparr>)
           ((get_initial_data default_config ! 0)\<lparr>c_price := 0\<rparr>)) = Inr 90
   \<and> map_sum id fst
        (calc_standard (default_config\<lparr>target_price := 0\<rparr>)
           ((get_initial_data default_config ! 0)\<lparr>c_price := 0\<rparr>)) \<noteq> Inr 0"
  by (simp add: default_config_def get_initial_data_def calc_standard_def
        full_score_price_def)



subsection \<open>A whole pass, either model\<close>






subsection \<open>Minimum bid ratio\<close>

text \<open>
  C5. Under the minimum ratio model, take a row with a positive bid price that no other
  positive bid price of the table undercuts. The minimum price the pass computes is
  that row's bid price, and after the pass the row's price score is exactly \<open>max_s4\<close>.
\<close>

theorem cheapest_positive_row_gets_max_score:
  assumes "i < length df" and "0 < c_price (df ! i)"
    and "\<forall>j < length df. 0 < c_price (df ! j) \<longrightarrow> c_price (df ! i) \<le> c_price (df ! j)"
  shows "min_price df = c_price (df ! i)
    \<and> (\<exists>df'. recompute df cfg MinRatio = Inr df' \<and> length df' = length df
          \<and> c_s4 (df' ! i) = real_of_int (max_s4 cfg))"
proof -
  from assms(1) have mem: "df ! i \<in> set df" by simp
  then have ne: "valid_prices df \<noteq> []"
    using assms(2) by (rule valid_prices_nonempty)
  then have pos: "0 < min_price df" by (rule min_price_pos)
  have le: "min_price df \<le> c_price (df ! i)"
    using mem assms(2) by (rule min_price_le)
  from ne obtain j where j: "j < length df" "c_price (df ! j) = min_price df"
    using min_price_mem by blast
  with pos assms(3) have "c_price (df ! i) \<le> min_price df" by auto
  with le have eq: "min_price df = c_price (df ! i)" by simp
  with assms(2) have
    "min_ratio_reference (real_of_int (max_s4 cfg)) (min_price df) (c_price (df ! i))
       = real_of_int (max_s4 cfg)"
    by (simp add: min_ratio_reference_def)
  with eq assms(1) show ?thesis
    by (simp add: recompute_value price_score_reference_def)
qed

theorem cheapest_positive_row_gets_max_score_witness:
  "(2::nat) < length (get_initial_data default_config)
   \<and> map c_price (get_initial_data default_config) = [420, 380, 340]
   \<and> min_price (get_initial_data default_config) = 340
   \<and> map_sum id (map c_s4)
       (recompute (get_initial_data default_config) default_config MinRatio)
     = Inr [510 / 7, 1530 / 19, 90]"
  using cheapest_positive_row_gets_max_score
    [of 2 "get_initial_data default_config" default_config]
  by (simp add: recompute_def recompute_tab2_def default_config_def get_initial_data_def
        calc_min_ratio_def min_price_def valid_prices_def py_div_def
        less_Suc_eq numeral_3_eq_3)

text \<open>
  C8, as the code has it. Take one row of the table and change its bid price to \<open>p'\<close>,
  every other row left as it is, and run the minimum ratio pass on both tables.
  With \<open>max_s4\<close> not negative, if the row's bid price was positive and \<open>p'\<close> is not
  smaller, the row's price score has not increased, whether or not the change moved the
  minimum price. A row with bid price 0 is outside the formula: its price score is 0,
  and if \<open>max_s4\<close> is positive, any positive \<open>p'\<close> gives it a larger price score.
\<close>

theorem min_ratio_score_in_own_price:
  assumes "i < length df"
  shows "\<exists>df1 df2. recompute df cfg MinRatio = Inr df1
      \<and> recompute (df[i := (df ! i)\<lparr>c_price := p'\<rparr>]) cfg MinRatio = Inr df2
      \<and> (0 \<le> max_s4 cfg \<and> 0 < c_price (df ! i) \<and> c_price (df ! i) \<le> p'
           \<longrightarrow> c_s4 (df2 ! i) \<le> c_s4 (df1 ! i))
      \<and> (c_price (df ! i) = 0 \<longrightarrow> c_s4 (df1 ! i) = 0)
      \<and> (c_price (df ! i) = 0 \<and> 0 < p' \<and> 0 < max_s4 cfg
           \<longrightarrow> c_s4 (df1 ! i) < c_s4 (df2 ! i))"
proof -
  let ?df' = "df[i := (df ! i)\<lparr>c_price := p'\<rparr>]"
  let ?M = "real_of_int (max_s4 cfg)"
  let ?s1 = "price_score_reference cfg MinRatio df (df ! i)"
  let ?s2 = "price_score_reference cfg MinRatio ?df' (?df' ! i)"
  have mem: "df ! i \<in> set df" using assms by simp
  have own': "c_price (?df' ! i) = p'" using assms by simp
  have b_pos: "0 < min_price ?df'" if "0 < p'"
  proof -
    have "(df ! i)\<lparr>c_price := p'\<rparr> \<in> set ?df'"
      using assms by (rule set_update_memI)
    moreover have "0 < c_price ((df ! i)\<lparr>c_price := p'\<rparr>)"
      using that by simp
    ultimately have "valid_prices ?df' \<noteq> []"
      by (rule valid_prices_nonempty)
    then show ?thesis by (rule min_price_pos)
  qed
  have mono: "?s2 \<le> ?s1"
    if M: "0 \<le> max_s4 cfg" and p: "0 < c_price (df ! i)" and pp: "c_price (df ! i) \<le> p'"
  proof -
    from p pp have p': "0 < p'" by simp
    have "valid_prices df \<noteq> []"
      using mem p by (rule valid_prices_nonempty)
    then have a_pos: "0 < min_price df" by (rule min_price_pos)
    have "min_price ?df' / p' \<le> min_price df / c_price (df ! i)"
      using assms p pp by (rule min_ratio_own_price_monotone)
    then have "min_price ?df' / p' * ?M \<le> min_price df / c_price (df ! i) * ?M"
      using M by (intro mult_right_mono) simp_all
    then show ?thesis
      using a_pos b_pos [OF p'] p' p own'
      by (simp add: price_score_reference_def min_ratio_reference_def)
  qed
  have zero: "?s1 = 0" if "c_price (df ! i) = 0"
    using that by (simp add: price_score_reference_def min_ratio_reference_def)
  have rise: "?s1 < ?s2" if z: "c_price (df ! i) = 0" and p': "0 < p'" and M: "0 < max_s4 cfg"
  proof -
    from M have "0 < ?M" by simp
    with b_pos [OF p'] p' have "0 < min_price ?df' / p' * ?M" by simp
    then have "0 < ?s2"
      using b_pos [OF p'] p' own'
      by (simp add: price_score_reference_def min_ratio_reference_def)
    with zero [OF z] show ?thesis by simp
  qed
  from mono zero rise show ?thesis
    using assms by (simp add: recompute_value)
qed

theorem min_ratio_score_in_own_price_witness:
  "(2::nat) < length (get_initial_data default_config)
   \<and> 0 \<le> max_s4 default_config
   \<and> 0 < c_price (get_initial_data default_config ! 2)
   \<and> c_price (get_initial_data default_config ! 2) \<le> 400
   \<and> map_sum id (map c_s4)
       (recompute (get_initial_data default_config) default_config MinRatio)
     = Inr [510 / 7, 1530 / 19, 90]
   \<and> map_sum id (map c_s4)
       (recompute ((get_initial_data default_config)
                     [2 := (get_initial_data default_config ! 2)\<lparr>c_price := 400\<rparr>])
          default_config MinRatio)
     = Inr [570 / 7, 90, 171 / 2]
   \<and> (0::nat) < length [(get_initial_data default_config ! 2)\<lparr>c_price := 0\<rparr>]
   \<and> c_price ([(get_initial_data default_config ! 2)\<lparr>c_price := 0\<rparr>] ! 0) = 0
   \<and> (0::real) < 340 \<and> 0 < max_s4 default_config
   \<and> map_sum id (map c_s4)
       (recompute [(get_initial_data default_config ! 2)\<lparr>c_price := 0\<rparr>]
          default_config MinRatio) = Inr [0]
   \<and> map_sum id (map c_s4)
       (recompute ([(get_initial_data default_config ! 2)\<lparr>c_price := 0\<rparr>]
                     [0 := ([(get_initial_data default_config ! 2)\<lparr>c_price := 0\<rparr>] ! 0)
                             \<lparr>c_price := 340\<rparr>])
          default_config MinRatio) = Inr [90]"
  using min_ratio_score_in_own_price
    [of 2 "get_initial_data default_config" default_config 400]
    min_ratio_score_in_own_price
    [of 0 "[(get_initial_data default_config ! 2)\<lparr>c_price := 0\<rparr>]" default_config 340]
  by (simp add: recompute_def recompute_tab2_def default_config_def get_initial_data_def
        calc_min_ratio_def min_price_def valid_prices_def py_div_def)

text \<open>
  C8 as stated fails at a bid price of 0: in a table of one row, with the default
  maxima, the row has price score 0 at bid price 0 and price score 90 at bid price 340.
\<close>

theorem zero_bid_scores_below_positive_bid:
  "c_price ((get_initial_data default_config ! 2)\<lparr>c_price := 0\<rparr>) \<le> 340
   \<and> map_sum id (map c_s4)
       (recompute [(get_initial_data default_config ! 2)\<lparr>c_price := 0\<rparr>]
          default_config MinRatio) = Inr [0]
   \<and> map_sum id (map c_s4)
       (recompute ([(get_initial_data default_config ! 2)\<lparr>c_price := 0\<rparr>]
                     [0 := ((get_initial_data default_config ! 2)\<lparr>c_price := 0\<rparr>)
                             \<lparr>c_price := 340\<rparr>])
          default_config MinRatio) = Inr [90]
   \<and> \<not> (90 :: real) \<le> 0"
  by (simp add: recompute_def recompute_tab2_def default_config_def get_initial_data_def
        calc_min_ratio_def min_price_def valid_prices_def py_div_def)

subsection \<open>Blank rows\<close>

text \<open>
  C9 fails on a blank row. With a target price of 0, the three starting rows and one
  row added in the editor and not yet filled in: the bid price of the new row is NaN,
  both tests of \<open>calc_standard\<close> are false, the interpolation branch is reached with a
  divisor \<open>target_price - full_score_price\<close> of 0, the division fails, and so does the
  pass over the table. The comment in the source calls this branch the case in
  between; for a bid price that is a number it is (\<open>calc_standard_cells_numeric_price\<close>).
\<close>

theorem blank_row_divides_by_zero:
  "standard_branch_cells (default_config\<lparr>target_price := 0\<rparr>) blank_row = Interpolation
   \<and> target_price (default_config\<lparr>target_price := 0\<rparr>)
       - full_score_price (default_config\<lparr>target_price := 0\<rparr>) = 0
   \<and> calc_standard_cells (default_config\<lparr>target_price := 0\<rparr>) blank_row
       = Inl ZeroDivisionError
   \<and> recompute_tab1_cells (default_config\<lparr>target_price := 0\<rparr>)
        (map cells_of (get_initial_data default_config) @ [blank_row])
       = Inl ZeroDivisionError"
  by (simp add: standard_branch_cells_def calc_standard_cells_def blank_row_def
        default_config_def full_score_price_def recompute_tab1_cells_def
        get_initial_data_def cells_of_def)

text \<open>
  C6 fails on a table of blank rows. The table is not empty, so the winner is looked
  up; the pass leaves the total of a blank row NaN, no total is a number, and the
  lookup fails instead of reporting that there is no winner. With at least one total
  that is a number the winner is as C6 says (\<open>rank_first_maximum\<close>), and the empty
  table has no winner and no error.
\<close>

theorem blank_table_winner_lookup_fails:
  "recompute_tab1_cells default_config [blank_row] = Inr [blank_row]
   \<and> rank [blank_row] = Inl ValueError
   \<and> rank [] = Inr None"
  by (simp add: recompute_tab1_cells_def calc_standard_cells_def blank_row_def
        default_config_def full_score_price_def rank_def idxmax_def)

end
